theory Spec2Isabelle
  imports Complex_Main "HOL-Library.Char_ord" "HOL-Library.List_Lexorder"
begin

section \<open>BluePath: the route, telemetry and audit components\<close>

text \<open>
  The development follows the four React components of the front end:
  \<^verbatim>\<open>RouteControls.tsx\<close> (route generation and its two geometric helpers),
  \<^verbatim>\<open>TelemetryPanel.tsx\<close> (the simulated telemetry feed), \<^verbatim>\<open>AuditLog.tsx\<close>
  (the audit entries and the chain check) and the page component that owns the
  route and the telemetry list.

  The coordinates typed into the form, the points of the path and the telemetry
  measurements are modelled as real numbers. The distance and the fuel figure of
  a route are results of IEEE double arithmetic; the model does not evaluate
  them, it records the computation that produces them (type \<open>dbl\<close> below), so
  that nothing is assumed about rounding, underflow or \<^verbatim>\<open>NaN\<close>.
\<close>

subsection \<open>Telemetry list of the page component\<close>

text \<open>
  \<^verbatim>\<open>Array.prototype.slice(start)\<close> with one argument: a negative \<open>start\<close> counts
  from the end and is clamped at the beginning of the array, a non-negative one
  is clamped at its length.
\<close>

definition slice :: "'a list \<Rightarrow> int \<Rightarrow> 'a list" where
  "slice xs start =
     (let len = int (length xs);
          k = (if start < 0 then max (len + start) 0 else min start len)
      in drop (nat k) xs)"

text \<open>
  \<^verbatim>\<open>setTelemetry(prev => [...prev.slice(-50), data])\<close>: the function from the
  previous list to the next one. The sample is of type \<^verbatim>\<open>any\<close>.
\<close>

definition handleTelemetryUpdate :: "'a list \<Rightarrow> 'a \<Rightarrow> 'a list" where
  "handleTelemetryUpdate prev data = slice prev (- 50) @ [data]"

subsection \<open>Geometric helpers of the route controls\<close>

text \<open>
  A position is the two-element array \<^verbatim>\<open>[lat, lon]\<close>, here a pair: \<open>fst\<close> is
  index 0 and \<open>snd\<close> is index 1.
\<close>

type_synonym LatLon = "real \<times> real"

text \<open>
  A computation in double arithmetic, as the source writes it: \<open>DNum x\<close> is a
  number literal or a parsed input, \<open>DPi\<close> is \<^verbatim>\<open>Math.PI\<close>, \<open>DAdd\<close>, \<open>DSub\<close>,
  \<open>DMul\<close> and \<open>DDiv\<close> are \<^verbatim>\<open>+\<close>, \<^verbatim>\<open>-\<close>, \<^verbatim>\<open>*\<close> and \<^verbatim>\<open>/\<close>, and the
  other constructors are the functions of \<^verbatim>\<open>Math\<close> of the same name. The number
  that a route stores is the result of running the computation in doubles,
  whatever that is (it can be \<^verbatim>\<open>NaN\<close>).
\<close>

datatype dbl =
    DNum real
  | DPi
  | DAdd dbl dbl
  | DSub dbl dbl
  | DMul dbl dbl
  | DDiv dbl dbl
  | DSin dbl
  | DCos dbl
  | DSqrt dbl
  | DAtan2 dbl dbl
  | DRound dbl

text \<open>
  \<^verbatim>\<open>calculateDistance\<close>, operation by operation; \<^verbatim>\<open>x * y / z\<close> is
  \<^verbatim>\<open>(x * y) / z\<close> and \<^verbatim>\<open>w * x * y * z\<close> is \<^verbatim>\<open>((w * x) * y) * z\<close>.
\<close>

definition calculateDistance :: "LatLon \<Rightarrow> LatLon \<Rightarrow> dbl" where
  "calculateDistance start dest =
     (let R = DNum 3440;
          lat1 = DDiv (DMul (DNum (fst start)) DPi) (DNum 180);
          lat2 = DDiv (DMul (DNum (fst dest)) DPi) (DNum 180);
          dLat = DDiv (DMul (DSub (DNum (fst dest)) (DNum (fst start))) DPi) (DNum 180);
          dLon = DDiv (DMul (DSub (DNum (snd dest)) (DNum (snd start))) DPi) (DNum 180);
          a = DAdd (DMul (DSin (DDiv dLat (DNum 2))) (DSin (DDiv dLat (DNum 2))))
                   (DMul (DMul (DMul (DCos lat1) (DCos lat2)) (DSin (DDiv dLon (DNum 2))))
                         (DSin (DDiv dLon (DNum 2))));
          c = DMul (DNum 2) (DAtan2 (DSqrt a) (DSqrt (DSub (DNum 1) a)))
      in DMul R c)"

text \<open>
  The loop of \<^verbatim>\<open>generateCurvedPath\<close>, \<^verbatim>\<open>for (let i = 0; i <= points; i++)\<close>,
  with the loop counter and the array built so far as arguments. The number of
  points is a natural number; the one call site passes 20. (For \<open>points = 0\<close>
  the source divides zero by zero.)
\<close>

function generateCurvedPath_loop ::
  "LatLon \<Rightarrow> LatLon \<Rightarrow> nat \<Rightarrow> nat \<Rightarrow> LatLon list \<Rightarrow> LatLon list" where
  "generateCurvedPath_loop start dest points i path =
     (if i \<le> points then
        (let t = real i / real points;
             lat = fst start + (fst dest - fst start) * t + sin (t * pi) * 2;
             lon = snd start + (snd dest - snd start) * t + cos (t * pi) * 1
         in generateCurvedPath_loop start dest points (i + 1) (path @ [(lat, lon)]))
      else path)"
  by pat_completeness auto
termination
  by (relation "measure (\<lambda>(start, dest, points, i, path). Suc points - i)") auto

declare generateCurvedPath_loop.simps [simp del]

definition generateCurvedPath :: "LatLon \<Rightarrow> LatLon \<Rightarrow> nat \<Rightarrow> LatLon list" where
  "generateCurvedPath start dest points = generateCurvedPath_loop start dest points 0 []"

text \<open>
  The point that one pass of the loop body appends: the body of the loop with
  \<open>i\<close> as a parameter.
\<close>

definition curvePoint :: "LatLon \<Rightarrow> LatLon \<Rightarrow> nat \<Rightarrow> nat \<Rightarrow> LatLon" where
  "curvePoint start dest points i =
     (fst start + (fst dest - fst start) * (real i / real points)
        + sin (real i / real points * pi) * 2,
      snd start + (snd dest - snd start) * (real i / real points)
        + cos (real i / real points * pi) * 1)"

subsection \<open>State of the page and its components\<close>

text \<open>
  The \<^verbatim>\<open>optimization\<close> object of a route and the route object that
  \<^verbatim>\<open>generateRoute\<close> builds.
\<close>

record Optimization =
  opt_fuel :: real
  opt_time :: real
  opt_safety :: real

record Route =
  path :: "LatLon list"
  distance :: dbl
  eta :: string
  fuel :: dbl
  optimization :: Optimization
  quantumEnhanced :: bool

text \<open>
  A telemetry sample. The timestamp is the ISO-8601 string of
  \<^verbatim>\<open>toISOString()\<close>; strings of that format are ordered in time by the
  lexicographic order. The measurements are the decimal values of the strings
  that \<^verbatim>\<open>toFixed(2)\<close> returns, so \<^verbatim>\<open>parseFloat(data.waveHeight)\<close> is
  \<open>waveHeight data\<close>.
\<close>

record TelemetrySample =
  timestamp :: string
  waveHeight :: real
  windSpeed :: real
  current :: real
  visibility :: real
  temperature :: real

record AuditEntry =
  entry_id :: int
  action :: string
  hash :: string
  entry_timestamp :: string
  verified :: bool

text \<open>A toast is recorded by its kind and its title; descriptions are left out.\<close>

datatype toast_kind = Success | Warning | Info | Error

datatype toast = Toast toast_kind string

text \<open>
  The state of the page: \<open>route\<close>, \<open>telemetry\<close> and \<open>isQuantumMode\<close> belong
  to the page component, \<open>loading\<close> up to \<open>safetyPriority\<close> to the route
  controls, \<open>isSimulating\<close> to the telemetry panel and \<open>entries\<close> to the
  audit log. The four coordinate fields hold the numbers that \<^verbatim>\<open>parseFloat\<close>
  returns for the text inputs, the three priorities the single value of each
  slider. \<open>toasts\<close> lists the toasts shown so far, oldest first.
\<close>

record App =
  route :: "Route option"
  telemetry :: "TelemetrySample list"
  isQuantumMode :: bool
  loading :: bool
  startLat :: real
  startLon :: real
  destLat :: real
  destLon :: real
  fuelPriority :: real
  timePriority :: real
  safetyPriority :: real
  isSimulating :: bool
  entries :: "AuditEntry list"
  toasts :: "toast list"

text \<open>
  The initial state of every \<^verbatim>\<open>useState\<close>; \<open>now\<close> is the time at which the
  audit log is first rendered.
\<close>

definition initialEntries :: "string \<Rightarrow> AuditEntry list" where
  "initialEntries now =
     [\<lparr>entry_id = 1, action = ''Route Computed'', hash = ''0x7a9d...'',
        entry_timestamp = now, verified = True\<rparr>,
      \<lparr>entry_id = 2, action = ''Telemetry Updated'', hash = ''0x4f2e...'',
        entry_timestamp = now, verified = True\<rparr>]"

definition initialApp :: "string \<Rightarrow> App" where
  "initialApp now =
     \<lparr>route = None, telemetry = [], isQuantumMode = False, loading = False,
      startLat = 13.0827, startLon = 80.2707, destLat = 1.3521, destLon = 103.8198,
      fuelPriority = 50, timePriority = 30, safetyPriority = 20,
      isSimulating = False, entries = initialEntries now, toasts = []\<rparr>"

subsection \<open>Route generation\<close>

definition handleRouteGenerated :: "Route \<Rightarrow> App \<Rightarrow> App" where
  "handleRouteGenerated newRoute s = s\<lparr>route := Some newRoute\<rparr>"

text \<open>
  \<^verbatim>\<open>generateRoute\<close>. Nothing in the \<^verbatim>\<open>try\<close> block checks its input or throws,
  so the \<^verbatim>\<open>catch\<close> branch with its error toast is never taken; the
  \<^verbatim>\<open>finally\<close> block resets \<open>loading\<close>. The two-second delay is not modelled.
\<close>

definition generateRoute :: "App \<Rightarrow> App" where
  "generateRoute s =
     (let s1 = s\<lparr>loading := True\<rparr>;
          start = (startLat s1, startLon s1);
          dest = (destLat s1, destLon s1);
          path = generateCurvedPath start dest 20;
          route =
            \<lparr>path = path,
             distance = DRound (calculateDistance start dest),
             eta = ''48 hrs'',
             fuel = DRound (DMul (calculateDistance start dest) (DNum 0.5)),
             optimization =
               \<lparr>opt_fuel = fuelPriority s1, opt_time = timePriority s1,
                opt_safety = safetyPriority s1\<rparr>,
             quantumEnhanced = isQuantumMode s1\<rparr>;
          s2 = handleRouteGenerated route s1
      in s2\<lparr>loading := False\<rparr>)"

subsection \<open>Telemetry simulation\<close>

text \<open>
  \<^verbatim>\<open>startSimulation\<close> and \<^verbatim>\<open>stopSimulation\<close>; the handle of the interval timer
  is not part of the state.
\<close>

definition startSimulation :: "App \<Rightarrow> App" where
  "startSimulation s =
     s\<lparr>isSimulating := True,
       toasts := toasts s @ [Toast Success ''Telemetry simulation started'']\<rparr>"

text \<open>
  One run of the interval callback of \<^verbatim>\<open>startSimulation\<close>. The sample it
  builds from the clock and the random source is the argument \<open>data\<close>.
\<close>

definition telemetryTick :: "TelemetrySample \<Rightarrow> App \<Rightarrow> App" where
  "telemetryTick data s =
     (let s1 = s\<lparr>telemetry := handleTelemetryUpdate (telemetry s) data\<rparr>
      in if waveHeight data > 4.5
         then s1\<lparr>toasts := toasts s1 @ [Toast Warning ''High wave alert!'']\<rparr>
         else s1)"

definition stopSimulation :: "App \<Rightarrow> App" where
  "stopSimulation s =
     s\<lparr>isSimulating := False,
       toasts := toasts s @ [Toast Info ''Telemetry simulation stopped'']\<rparr>"

subsection \<open>Audit log\<close>

text \<open>
  \<^verbatim>\<open>verifyChain\<close> shows the toast "Audit chain verified" ("All entries are
  cryptographically valid"). It does not read the entries.
\<close>

definition verifyChain :: "App \<Rightarrow> App" where
  "verifyChain s = s\<lparr>toasts := toasts s @ [Toast Success ''Audit chain verified'']\<rparr>"

subsection \<open>Notions of the specification\<close>

text \<open>A waypoint of the specification: latitude in [-90,90], longitude in [-180,180].\<close>

definition spec_in_range :: "LatLon \<Rightarrow> bool" where
  "spec_in_range p = (- 90 \<le> fst p \<and> fst p \<le> 90 \<and> - 180 \<le> snd p \<and> snd p \<le> 180)"

text \<open>The audit entries that carry a given action.\<close>

definition entriesWithAction :: "string \<Rightarrow> AuditEntry list \<Rightarrow> AuditEntry list" where
  "entriesWithAction a es = filter (\<lambda>e. action e = a) es"

text \<open>The outcome that \<^verbatim>\<open>verifyChain\<close> reports: the toast it has just shown.\<close>

definition reportedValid :: "App \<Rightarrow> bool" where
  "reportedValid s =
     (case rev (toasts s) of [] \<Rightarrow> False | Toast k title # ts \<Rightarrow> k = Success)"

text \<open>The sum of the three weights stored in a route.\<close>

definition weightSum :: "Optimization \<Rightarrow> real" where
  "weightSum w = opt_fuel w + opt_time w + opt_safety w"

subsection \<open>Example states and samples\<close>

definition exampleNow :: string where
  "exampleNow = ''2024-01-15T10:30:00.000Z''"

text \<open>The page after one route generation with the default inputs.\<close>

definition readyApp :: App where
  "readyApp = generateRoute (initialApp exampleNow)"

text \<open>A sample with wave height 5.2 m, and one stamped two seconds before it.\<close>

definition highWaveSample :: TelemetrySample where
  "highWaveSample =
     \<lparr>timestamp = ''2024-01-15T10:30:02.000Z'', waveHeight = 5.2, windSpeed = 25.4,
      current = 1.1, visibility = 9.5, temperature = 24.3\<rparr>"

definition earlierSample :: TelemetrySample where
  "earlierSample =
     \<lparr>timestamp = ''2024-01-15T10:30:00.000Z'', waveHeight = 2.1, windSpeed = 18,
      current = 0.7, visibility = 12.25, temperature = 22.9\<rparr>"

text \<open>The initial page with the hash of the audit entry at index 1 overwritten.\<close>

definition tamperedApp :: App where
  "tamperedApp =
     (initialApp exampleNow)
       \<lparr>entries := (initialEntries exampleNow)
          [1 := (initialEntries exampleNow ! 1)\<lparr>hash := ''0xdead...''\<rparr>]\<rparr>"

text \<open>The initial page with a start latitude of 95 degrees.\<close>

definition outOfRangeApp :: App where
  "outOfRangeApp = (initialApp exampleNow)\<lparr>startLat := 95\<rparr>"

text \<open>The initial page with all three sliders at zero.\<close>

definition zeroWeightsApp :: App where
  "zeroWeightsApp =
     (initialApp exampleNow)\<lparr>fuelPriority := 0, timePriority := 0, safetyPriority := 0\<rparr>"

section \<open>Properties\<close>

subsection \<open>Properties of the telemetry list\<close>

lemma slice_last_50: "slice xs (- 50) = drop (length xs - 50) xs"
  by (simp add: slice_def Let_def max_def nat_diff_distrib')

lemma length_slice_last_50: "length (slice xs (- 50)) \<le> 50"
  by (simp add: slice_last_50)

text \<open>
  Claim C10. A telemetry update keeps the last 50 elements of the previous list and
  puts the new sample after them: the new list has at most 51 elements and the new
  sample is its last element.
\<close>

theorem handleTelemetryUpdate_window:
  "handleTelemetryUpdate prev data = drop (length prev - 50) prev @ [data]
   \<and> length (handleTelemetryUpdate prev data) \<le> 51
   \<and> length (handleTelemetryUpdate prev data) = min (length prev) 50 + 1
   \<and> last (handleTelemetryUpdate prev data) = data"
  by (simp add: handleTelemetryUpdate_def slice_last_50 min_def)

subsection \<open>The curved path\<close>

text \<open>The loop appends the points for \<open>i, i + 1, \<dots>, points\<close> to what it is given.\<close>

lemma generateCurvedPath_loop_eq:
  "generateCurvedPath_loop start dest points i acc =
     acc @ map (curvePoint start dest points) [i..<Suc points]"
proof (induction start dest points i acc rule: generateCurvedPath_loop.induct)
  case (1 start dest points i acc)
  show ?case
  proof (cases "i \<le> points")
    case True
    have u: "[i..<Suc points] = i # [Suc i..<Suc points]"
      using True by (simp add: upt_conv_Cons)
    have "generateCurvedPath_loop start dest points i acc
        = generateCurvedPath_loop start dest points (i + 1) (acc @ [curvePoint start dest points i])"
      using True by (subst generateCurvedPath_loop.simps) (simp add: Let_def curvePoint_def)
    also have "\<dots> = (acc @ [curvePoint start dest points i])
                      @ map (curvePoint start dest points) [i + 1..<Suc points]"
      using 1 [OF True refl refl refl] by (simp add: curvePoint_def)
    finally show ?thesis unfolding u by (simp del: upt_Suc)
  next
    case False
    then show ?thesis by (subst generateCurvedPath_loop.simps) simp
  qed
qed

lemma generateCurvedPath_eq:
  "generateCurvedPath start dest points = map (curvePoint start dest points) [0..<Suc points]"
  by (simp add: generateCurvedPath_def generateCurvedPath_loop_eq del: upt_Suc)

lemma length_generateCurvedPath: "length (generateCurvedPath start dest points) = points + 1"
  by (simp add: generateCurvedPath_eq)

lemma hd_generateCurvedPath:
  "hd (generateCurvedPath start dest points) = (fst start, snd start + 1)"
  by (simp add: generateCurvedPath_eq upt_conv_Cons curvePoint_def del: upt_Suc)

lemma last_generateCurvedPath:
  "0 < points \<Longrightarrow> last (generateCurvedPath start dest points) = (fst dest, snd dest - 1)"
  by (simp add: generateCurvedPath_eq curvePoint_def)

subsection \<open>What route generation changes\<close>

lemma route_generateRoute:
  "route (generateRoute s) =
     Some \<lparr>path = generateCurvedPath (startLat s, startLon s) (destLat s, destLon s) 20,
           distance = DRound (calculateDistance (startLat s, startLon s) (destLat s, destLon s)),
           eta = ''48 hrs'',
           fuel = DRound (DMul (calculateDistance (startLat s, startLon s) (destLat s, destLon s))
                               (DNum 0.5)),
           optimization = \<lparr>opt_fuel = fuelPriority s, opt_time = timePriority s,
                            opt_safety = safetyPriority s\<rparr>,
           quantumEnhanced = isQuantumMode s\<rparr>"
  by (simp add: generateRoute_def handleRouteGenerated_def Let_def)

lemma generateRoute_frame:
  "toasts (generateRoute s) = toasts s" "entries (generateRoute s) = entries s"
  "telemetry (generateRoute s) = telemetry s" "loading (generateRoute s) = False"
  "startLat (generateRoute s) = startLat s" "startLon (generateRoute s) = startLon s"
  "destLat (generateRoute s) = destLat s" "destLon (generateRoute s) = destLon s"
  "fuelPriority (generateRoute s) = fuelPriority s"
  "timePriority (generateRoute s) = timePriority s"
  "safetyPriority (generateRoute s) = safetyPriority s"
  "isQuantumMode (generateRoute s) = isQuantumMode s"
  by (simp_all add: generateRoute_def handleRouteGenerated_def Let_def)

lemma telemetryTick_frame:
  "route (telemetryTick data s) = route s" "entries (telemetryTick data s) = entries s"
  "telemetry (telemetryTick data s) = handleTelemetryUpdate (telemetry s) data"
  "startLat (telemetryTick data s) = startLat s" "startLon (telemetryTick data s) = startLon s"
  "destLat (telemetryTick data s) = destLat s" "destLon (telemetryTick data s) = destLon s"
  "fuelPriority (telemetryTick data s) = fuelPriority s"
  "timePriority (telemetryTick data s) = timePriority s"
  "safetyPriority (telemetryTick data s) = safetyPriority s"
  "isQuantumMode (telemetryTick data s) = isQuantumMode s"
  by (simp_all add: telemetryTick_def Let_def)

lemma toasts_telemetryTick:
  "toasts (telemetryTick data s) =
     (if 4.5 < waveHeight data then toasts s @ [Toast Warning ''High wave alert!''] else toasts s)"
  by (simp add: telemetryTick_def Let_def)

text \<open>
  Claim C1. With the default inputs, start (13.0827, 80.2707) and destination
  (1.3521, 103.8198), the generated path has 21 points; its first point is
  (13.0827, 81.2707) and its last point is (1.3521, 102.8198): the longitude of
  each end is one degree off the requested port, because the longitude offset
  \<open>cos (t \<pi>)\<close> is 1 at \<open>t = 0\<close> and \<open>-1\<close> at \<open>t = 1\<close>.
\<close>

theorem generateRoute_default_path_ends:
  "map_option (length \<circ> path) (route (generateRoute (initialApp now))) = Some 21
   \<and> map_option (hd \<circ> path) (route (generateRoute (initialApp now))) = Some (13.0827, 81.2707)
   \<and> map_option (last \<circ> path) (route (generateRoute (initialApp now))) = Some (1.3521, 102.8198)
   \<and> (startLat (initialApp now), startLon (initialApp now)) = (13.0827, 80.2707)
   \<and> (destLat (initialApp now), destLon (initialApp now)) = (1.3521, 103.8198)"
  by (simp add: route_generateRoute length_generateCurvedPath hd_generateCurvedPath
      last_generateCurvedPath initialApp_def)

subsection \<open>The generated route\<close>


text \<open>
  Claim C8. Route generation is a function of its inputs: two page states with
  the same start, destination, priorities and mode produce the same route,
  whatever the rest of the two states is (an earlier route, the telemetry list,
  the audit entries, the toasts shown, the loading flag). There is no seed and no
  random source in route generation.
\<close>

theorem generateRoute_deterministic:
  assumes "startLat s = startLat s'" and "startLon s = startLon s'"
    and "destLat s = destLat s'" and "destLon s = destLon s'"
    and "fuelPriority s = fuelPriority s'" and "timePriority s = timePriority s'"
    and "safetyPriority s = safetyPriority s'" and "isQuantumMode s = isQuantumMode s'"
  shows "route (generateRoute s) = route (generateRoute s')"
  using assms by (simp add: route_generateRoute)

theorem generateRoute_deterministic_witness:
  "startLat (initialApp exampleNow) = startLat (telemetryTick highWaveSample readyApp)
   \<and> startLon (initialApp exampleNow) = startLon (telemetryTick highWaveSample readyApp)
   \<and> destLat (initialApp exampleNow) = destLat (telemetryTick highWaveSample readyApp)
   \<and> destLon (initialApp exampleNow) = destLon (telemetryTick highWaveSample readyApp)
   \<and> fuelPriority (initialApp exampleNow) = fuelPriority (telemetryTick highWaveSample readyApp)
   \<and> timePriority (initialApp exampleNow) = timePriority (telemetryTick highWaveSample readyApp)
   \<and> safetyPriority (initialApp exampleNow)
       = safetyPriority (telemetryTick highWaveSample readyApp)
   \<and> isQuantumMode (initialApp exampleNow) = isQuantumMode (telemetryTick highWaveSample readyApp)
   \<and> initialApp exampleNow \<noteq> telemetryTick highWaveSample readyApp
   \<and> route (generateRoute (initialApp exampleNow))
       = route (generateRoute (telemetryTick highWaveSample readyApp))"
proof -
  have eqs:
    "startLat (initialApp exampleNow) = startLat (telemetryTick highWaveSample readyApp)"
    "startLon (initialApp exampleNow) = startLon (telemetryTick highWaveSample readyApp)"
    "destLat (initialApp exampleNow) = destLat (telemetryTick highWaveSample readyApp)"
    "destLon (initialApp exampleNow) = destLon (telemetryTick highWaveSample readyApp)"
    "fuelPriority (initialApp exampleNow) = fuelPriority (telemetryTick highWaveSample readyApp)"
    "timePriority (initialApp exampleNow) = timePriority (telemetryTick highWaveSample readyApp)"
    "safetyPriority (initialApp exampleNow)
       = safetyPriority (telemetryTick highWaveSample readyApp)"
    "isQuantumMode (initialApp exampleNow) = isQuantumMode (telemetryTick highWaveSample readyApp)"
    by (simp_all add: telemetryTick_frame readyApp_def generateRoute_frame)
  have "telemetry (initialApp exampleNow) \<noteq> telemetry (telemetryTick highWaveSample readyApp)"
    by (simp add: telemetryTick_frame handleTelemetryUpdate_def initialApp_def)
  then have ne: "initialApp exampleNow \<noteq> telemetryTick highWaveSample readyApp"
    by auto
  show ?thesis
    using eqs ne generateRoute_deterministic [OF eqs] by simp
qed

text \<open>
  Claim C4, as stated, fails: with the default sliders 50, 30 and 20 the weights
  stored in the route sum to 100, not to 1, and with all three sliders at zero a
  route is produced all the same.
\<close>

theorem generateRoute_weights_counterexample:
  "0 \<le> fuelPriority (initialApp exampleNow) \<and> 0 \<le> timePriority (initialApp exampleNow)
   \<and> 0 \<le> safetyPriority (initialApp exampleNow)
   \<and> map_option (weightSum \<circ> optimization) (route (generateRoute (initialApp exampleNow)))
       = Some 100
   \<and> \<not> \<bar>100 - 1\<bar> \<le> (1 / 10 ^ 9 :: real)
   \<and> fuelPriority zeroWeightsApp + timePriority zeroWeightsApp + safetyPriority zeroWeightsApp = 0
   \<and> route (generateRoute zeroWeightsApp) \<noteq> None
   \<and> toasts (generateRoute zeroWeightsApp) = []"
  by (simp add: route_generateRoute generateRoute_frame weightSum_def initialApp_def
      zeroWeightsApp_def)

text \<open>
  Claim C4, amended. The weights stored in the generated route are the three
  slider values as they are: they are not normalised, so their sum is the sum of
  the slider values, and no triple of slider values is rejected.
\<close>

theorem generateRoute_weights_unchanged:
  "map_option optimization (route (generateRoute s))
     = Some \<lparr>opt_fuel = fuelPriority s, opt_time = timePriority s,
              opt_safety = safetyPriority s\<rparr>
   \<and> map_option (weightSum \<circ> optimization) (route (generateRoute s))
       = Some (fuelPriority s + timePriority s + safetyPriority s)
   \<and> route (generateRoute s) \<noteq> None"
  by (simp add: route_generateRoute weightSum_def)

text \<open>
  Claim C5, as stated, fails: a start latitude of 95 degrees is out of range, and
  route generation shows no error and replaces the (absent) route of the page by
  a new one.
\<close>

theorem generateRoute_out_of_range_counterexample:
  "\<not> spec_in_range (startLat outOfRangeApp, startLon outOfRangeApp)
   \<and> route outOfRangeApp = None
   \<and> route (generateRoute outOfRangeApp) \<noteq> None
   \<and> map_option (hd \<circ> path) (route (generateRoute outOfRangeApp)) = Some (95, 81.2707)
   \<and> toasts (generateRoute outOfRangeApp) = []"
  by (simp add: spec_in_range_def route_generateRoute generateRoute_frame hd_generateCurvedPath
      outOfRangeApp_def initialApp_def)

text \<open>
  Claim C5, amended. Route generation checks no input: for every numeric start
  and destination, in range or not, it produces a route whose path has 21
  points, stores it in the page, shows no error toast and ends with the loading
  flag cleared.
\<close>

theorem generateRoute_never_rejects:
  "route (generateRoute s) \<noteq> None
   \<and> map_option (length \<circ> path) (route (generateRoute s)) = Some 21
   \<and> toasts (generateRoute s) = toasts s
   \<and> loading (generateRoute s) = False"
  by (simp add: route_generateRoute generateRoute_frame length_generateCurvedPath)

subsection \<open>The audit log\<close>

text \<open>
  Claim C2, as stated, fails: after the hash of the entry at index 1 has been
  overwritten, the chain check still reports success.
\<close>

theorem verifyChain_tampered_counterexample:
  "map hash (entries tamperedApp) \<noteq> map hash (entries (initialApp exampleNow))
   \<and> reportedValid (verifyChain tamperedApp)"
  by (simp add: tamperedApp_def initialApp_def initialEntries_def verifyChain_def
      reportedValid_def)

text \<open>
  Claim C2, amended. The chain check reports success for every chain, the empty
  one and every altered one included; it shows the toast "Audit chain verified",
  leaves the entries as they are and never reports an index.
\<close>

theorem verifyChain_always_reports_valid:
  "reportedValid (verifyChain s)
   \<and> toasts (verifyChain s) = toasts s @ [Toast Success ''Audit chain verified'']
   \<and> entries (verifyChain s) = entries s
   \<and> reportedValid (verifyChain (s\<lparr>entries := []\<rparr>))
   \<and> reportedValid (verifyChain (s\<lparr>entries := es\<rparr>))"
  by (simp add: verifyChain_def reportedValid_def)

subsection \<open>The telemetry feed\<close>

text \<open>
  Claim C3, as stated, fails: on a page that holds a route, a sample with wave
  height 5.2 adds no audit entry at all, so none with the action
  "ReplanTriggered", and leaves the route as it was.
\<close>

theorem telemetryTick_replan_counterexample:
  "route readyApp \<noteq> None \<and> 4.5 < waveHeight highWaveSample
   \<and> entries (telemetryTick highWaveSample readyApp) = entries readyApp
   \<and> entriesWithAction ''ReplanTriggered'' (entries (telemetryTick highWaveSample readyApp)) = []
   \<and> route (telemetryTick highWaveSample readyApp) = route readyApp"
  by (simp add: telemetryTick_frame readyApp_def route_generateRoute generateRoute_frame
      highWaveSample_def initialApp_def initialEntries_def entriesWithAction_def)

text \<open>
  Claim C3, amended. For every sample whose wave height exceeds 4.5 m, one run of
  the telemetry callback records the sample in the telemetry list and shows
  exactly one warning toast "High wave alert!"; the route and the audit entries
  stay as they were.
\<close>

theorem telemetryTick_high_wave:
  assumes "4.5 < waveHeight data"
  shows "telemetry (telemetryTick data s) = handleTelemetryUpdate (telemetry s) data
    \<and> toasts (telemetryTick data s) = toasts s @ [Toast Warning ''High wave alert!'']
    \<and> route (telemetryTick data s) = route s
    \<and> entries (telemetryTick data s) = entries s"
  using assms by (simp add: telemetryTick_frame toasts_telemetryTick)

theorem telemetryTick_high_wave_witness:
  "4.5 < waveHeight highWaveSample
   \<and> telemetry (telemetryTick highWaveSample readyApp) = [highWaveSample]
   \<and> toasts (telemetryTick highWaveSample readyApp) = [Toast Warning ''High wave alert!'']
   \<and> route (telemetryTick highWaveSample readyApp) = route readyApp
   \<and> entries (telemetryTick highWaveSample readyApp) = initialEntries exampleNow"
proof -
  have h: "4.5 < waveHeight highWaveSample" by (simp add: highWaveSample_def)
  have "telemetry readyApp = []" "toasts readyApp = []"
    "entries readyApp = initialEntries exampleNow"
    by (simp_all add: readyApp_def generateRoute_frame initialApp_def)
  then show ?thesis
    using h telemetryTick_high_wave [OF h, of readyApp]
    by (simp add: handleTelemetryUpdate_def slice_def)
qed

text \<open>
  Claim C6, as stated, fails: a sample stamped two seconds before the last
  recorded one is appended to the telemetry list.
\<close>

theorem handleTelemetryUpdate_out_of_order_counterexample:
  "timestamp earlierSample \<le> timestamp highWaveSample
   \<and> handleTelemetryUpdate [highWaveSample] earlierSample = [highWaveSample, earlierSample]"
  by (simp add: earlierSample_def highWaveSample_def handleTelemetryUpdate_def slice_def)

text \<open>
  Claim C6, amended. Telemetry samples are recorded in the order in which they
  arrive, whatever their timestamps: a sample whose timestamp is not later than
  that of the last recorded sample is appended as the new last element of the
  telemetry list. The audit entries are not altered.
\<close>

theorem telemetryTick_records_out_of_order:
  assumes "telemetry s \<noteq> []" and "timestamp data \<le> timestamp (last (telemetry s))"
  shows "last (telemetry (telemetryTick data s)) = data
    \<and> data \<in> set (telemetry (telemetryTick data s))
    \<and> entries (telemetryTick data s) = entries s"
  by (simp add: telemetryTick_frame handleTelemetryUpdate_def)

theorem telemetryTick_records_out_of_order_witness:
  "telemetry (telemetryTick highWaveSample readyApp) \<noteq> []
   \<and> timestamp earlierSample \<le> timestamp (last (telemetry (telemetryTick highWaveSample readyApp)))
   \<and> telemetry (telemetryTick earlierSample (telemetryTick highWaveSample readyApp))
       = [highWaveSample, earlierSample]
   \<and> entries (telemetryTick earlierSample (telemetryTick highWaveSample readyApp))
       = entries readyApp"
proof -
  have t: "telemetry (telemetryTick highWaveSample readyApp) = [highWaveSample]"
    by (simp add: telemetryTick_frame readyApp_def generateRoute_frame initialApp_def
        handleTelemetryUpdate_def slice_def)
  have h1: "telemetry (telemetryTick highWaveSample readyApp) \<noteq> []"
    by (simp add: t)
  have h2: "timestamp earlierSample
              \<le> timestamp (last (telemetry (telemetryTick highWaveSample readyApp)))"
    unfolding t by (simp add: earlierSample_def highWaveSample_def)
  have e: "entries (telemetryTick earlierSample (telemetryTick highWaveSample readyApp))
             = entries readyApp"
    by (simp add: telemetryTick_frame)
  have "telemetry (telemetryTick earlierSample (telemetryTick highWaveSample readyApp))
          = handleTelemetryUpdate (telemetry (telemetryTick highWaveSample readyApp)) earlierSample"
    by (rule telemetryTick_frame(3))
  also have "\<dots> = handleTelemetryUpdate [highWaveSample] earlierSample"
    by (simp only: t)
  also have "\<dots> = [highWaveSample, earlierSample]"
    by (simp add: handleTelemetryUpdate_def slice_def)
  finally have l: "telemetry (telemetryTick earlierSample (telemetryTick highWaveSample readyApp))
             = [highWaveSample, earlierSample]" .
  show ?thesis
    using h1 h2 e l telemetryTick_records_out_of_order [OF h1 h2]
    by (simp only: simp_thms)
qed


end
